theory Spec2Isabelle
  imports Complex_Main "HOL-Library.Word"
begin

unbundle bit_operations_syntax

section \<open>The WebSocket-to-worker supervisor of the backend server\<close>

text \<open>
  The server (the Node.js program listed in the README) accepts WebSocket connections,
  spawns one Python worker per connection, frames the worker's standard output into
  lines, relays JSON messages in both directions and tears the worker down when the
  client disconnects. This theory embeds that program as a state machine: one event
  of the Node event loop is one call of \<open>step\<close>, and each handler is one function
  below, named after the source. The \<open>error\<close> handler of a chat connection, which
  only logs, is left out.
\<close>

subsection \<open>JavaScript strings, buffers and JSON values\<close>

text \<open>
  A JavaScript string is a sequence of UTF-16 code units, a \<open>Buffer\<close> a sequence of
  bytes. \<open>str\<close> writes an ASCII literal of the source as code units.
\<close>

type_synonym jsstring = "16 word list"
type_synonym bytes = "8 word list"

definition str :: "string \<Rightarrow> jsstring" where
  "str s = map of_char s"

definition nl :: "16 word" where
  "nl = 10"

text \<open>
  A parsed JSON value. Numbers are never computed with by the server, they only
  pass through; every finite double is a rational.
\<close>

datatype json =
    JNull
  | JBool bool
  | JNum rat
  | JStr jsstring
  | JArr "json list"
  | JObj "(jsstring \<times> json) list"

text \<open>
  Property access \<open>data.k\<close> on a value that is not \<open>null\<close>: \<open>None\<close> is
  \<open>undefined\<close>. (On \<open>null\<close> the access throws; the handlers below take that branch
  before calling \<open>member\<close>. A parsed object has each key once.)
\<close>

fun member :: "json \<Rightarrow> jsstring \<Rightarrow> json option" where
  "member (JObj kvs) k = map_of kvs k"
| "member _ k = None"

text \<open>
  Whether the string conversion of a value in a template literal, \<open>`${v}`\<close>, throws a
  TypeError. A parsed object is converted by its \<open>toString\<close>: the inherited one
  returns a string, but an own property of that name is never a function, and the
  conversion then throws. An array joins the conversions of its elements (\<open>null\<close> as
  the empty string). \<open>undefined\<close> and every other value convert.
\<close>

fun unprintable :: "json \<Rightarrow> bool" where
  "unprintable (JObj kvs) = (map_of kvs (str ''toString'') \<noteq> None)"
| "unprintable (JArr xs) = list_ex unprintable xs"
| "unprintable _ = False"

definition throws_in_template :: "json option \<Rightarrow> bool" where
  "throws_in_template v = (case v of None \<Rightarrow> False | Some x \<Rightarrow> unprintable x)"

text \<open>
  An object literal \<open>{k: v, timestamp: t}\<close> as \<open>JSON.stringify\<close> sees it: a property
  whose value is \<open>undefined\<close> is left out.
\<close>

definition payload :: "string \<Rightarrow> json option \<Rightarrow> nat \<Rightarrow> json" where
  "payload k v t =
     JObj ((case v of None \<Rightarrow> [] | Some x \<Rightarrow> [(str k, x)]) @
           [(str ''timestamp'', JNum (of_nat t))])"

definition system_message :: "string \<Rightarrow> json" where
  "system_message m =
     JObj [(str ''type'', JStr (str ''system'')), (str ''message'', JStr (str m))]"

subsection \<open>\<open>Buffer.prototype.toString()\<close>: UTF-8 decoding of one chunk\<close>

text \<open>
  \<open>data.toString()\<close> decodes the bytes of one chunk as UTF-8, on its own: a byte
  that cannot start or continue a well-formed character, and a character cut short by
  the end of the chunk, are replaced by U+FFFD.
  \<open>lead\<close> classifies a first byte: either a code point to emit, or the number of
  continuation bytes still needed, the bits read so far and the range allowed for
  the next byte.
\<close>

definition lead :: "8 word \<Rightarrow> nat + (nat \<times> nat \<times> 8 word \<times> 8 word)" where
  "lead b =
     (if b < 0x80 then Inl (unat b)
      else if 0xC2 \<le> b \<and> b \<le> 0xDF then Inr (1, unat (b AND 0x1F), 0x80, 0xBF)
      else if 0xE0 \<le> b \<and> b \<le> 0xEF then
        Inr (2, unat (b AND 0x0F), if b = 0xE0 then 0xA0 else 0x80,
             if b = 0xED then 0x9F else 0xBF)
      else if 0xF0 \<le> b \<and> b \<le> 0xF4 then
        Inr (3, unat (b AND 0x07), if b = 0xF0 then 0x90 else 0x80,
             if b = 0xF4 then 0x8F else 0xBF)
      else Inl 0xFFFD)"

fun utf8 :: "(nat \<times> nat \<times> 8 word \<times> 8 word) option \<Rightarrow> bytes \<Rightarrow> nat list" where
  "utf8 None [] = []"
| "utf8 (Some st) [] = [0xFFFD]"
| "utf8 None (b # bs) =
     (case lead b of
        Inl cp \<Rightarrow> cp # utf8 None bs
      | Inr st \<Rightarrow> utf8 (Some st) bs)"
| "utf8 (Some (needed, cp, lo, hi)) (b # bs) =
     (if lo \<le> b \<and> b \<le> hi then
        (if needed = 1 then (cp * 64 + unat (b AND 0x3F)) # utf8 None bs
         else utf8 (Some (needed - 1, cp * 64 + unat (b AND 0x3F), 0x80, 0xBF)) bs)
      else 0xFFFD #
        (case lead b of
           Inl cp' \<Rightarrow> cp' # utf8 None bs
         | Inr st \<Rightarrow> utf8 (Some st) bs))"

definition utf16 :: "nat \<Rightarrow> jsstring" where
  "utf16 cp =
     (if cp < 0x10000 then [of_nat cp]
      else [of_nat (0xD800 + (cp - 0x10000) div 0x400),
            of_nat (0xDC00 + (cp - 0x10000) mod 0x400)])"

definition toString :: "bytes \<Rightarrow> jsstring" where
  "toString bs = concat (map utf16 (utf8 None bs))"

subsection \<open>\<open>String.prototype.split\<close> at line feeds and \<open>String.prototype.trim\<close>\<close>

text \<open>
  \<open>s.split('\n')\<close>: the segments between line feeds; always at least one segment
  (the empty string splits into one empty segment). A character that is not a line
  feed joins the first segment of what follows; the rest of a string always has a
  first segment, so the last case never applies.
\<close>

fun split :: "jsstring \<Rightarrow> jsstring list" where
  "split [] = [[]]"
| "split (c # cs) =
     (if c = nl then [] # split cs
      else (case split cs of
              x # xs \<Rightarrow> (c # x) # xs
            | [] \<Rightarrow> [[c]]))"

text \<open>The characters \<open>trim()\<close> strips: ECMAScript's WhiteSpace and LineTerminator.\<close>

definition whitespace :: "16 word \<Rightarrow> bool" where
  "whitespace c =
     (c = 0x09 \<or> c = 0x0A \<or> c = 0x0B \<or> c = 0x0C \<or> c = 0x0D \<or> c = 0x20 \<or>
      c = 0xA0 \<or> c = 0x1680 \<or> (0x2000 \<le> c \<and> c \<le> 0x200A) \<or>
      c = 0x2028 \<or> c = 0x2029 \<or> c = 0x202F \<or> c = 0x205F \<or> c = 0x3000 \<or>
      c = 0xFEFF)"

definition trim :: "jsstring \<Rightarrow> jsstring" where
  "trim s = rev (dropWhile whitespace (rev (dropWhile whitespace s)))"

subsection \<open>The stream framer of a worker's standard output\<close>

text \<open>
  The first three statements of both \<open>stdout.on('data')\<close> handlers:
  \<^verbatim>\<open>buffer += data.toString(); const lines = buffer.split('\n'); buffer = lines.pop();\<close>
  The result is the complete lines and the new pending buffer.
\<close>

definition framer :: "jsstring \<Rightarrow> bytes \<Rightarrow> jsstring list \<times> jsstring" where
  "framer buffer data =
     (let lines = split (buffer @ toString data)
      in (butlast lines, last lines))"

text \<open>The framer over the chunks of a stream, in arrival order.\<close>

fun framer_run :: "jsstring \<Rightarrow> bytes list \<Rightarrow> jsstring list \<times> jsstring" where
  "framer_run buffer [] = ([], buffer)"
| "framer_run buffer (data # rest) =
     (let (lines, buffer') = framer buffer data;
          (more, final) = framer_run buffer' rest
      in (lines @ more, final))"

subsection \<open>Server state\<close>

datatype kind = Recognition | Chat

text \<open>One constructor per \<open>logger\<close> call of the supervisor, with the values it prints.\<close>

datatype logline =
    NewConnection kind nat
  | Started kind nat
  | FailedToStart kind jsstring
  | ChatOutput json
  | InvalidJson kind jsstring
  | ProcessError kind jsstring
  | ProcessClosed kind "int option"
  | ReceivedQuery "json option"
  | MessageError kind
  | ConnectionClosed kind nat
  | Terminated kind nat

text \<open>
  A spawned child process together with the variables its handlers close over: the
  \<open>clientId\<close> and \<open>ws\<close> it was started for and the framer's \<open>buffer\<close>. \<open>stdin\<close> lists
  the values written to its input, oldest first: an entry \<open>v\<close> is the text
  \<open>JSON.stringify(v) + '\n'\<close>. \<open>killed\<close> records a call of \<open>kill()\<close>, \<open>closed\<close> that the
  process's \<open>close\<close> event has been delivered.
\<close>

record worker =
  wkind :: kind
  wclient :: nat
  wsocket :: nat
  stdin :: "json list"
  buffer :: jsstring
  killed :: bool
  closed :: bool

text \<open>
  A client connection \<open>ws\<close> together with the variables of its \<open>connection\<close> handler:
  \<open>clientId\<close> (the decimal rendering of \<open>Date.now()\<close>, kept as the number it renders),
  \<open>isChatWs\<close>, and \<open>process\<close>, the variable \<open>chatProcess\<close> or \<open>recognitionProcess\<close>
  (\<open>None\<close> is \<open>null\<close>). \<open>sent\<close> lists the values passed to \<open>ws.send\<close>, oldest first:
  an entry \<open>v\<close> is the text frame \<open>JSON.stringify(v)\<close>.
\<close>

record socket =
  clientId :: nat
  isChatWs :: bool
  isOpen :: bool
  process :: "nat option"
  sent :: "json list"

text \<open>
  The whole server: the clock read by \<open>Date.now()\<close> (milliseconds), the two registry
  maps, every process ever spawned (a process is named by its position), every
  connection ever accepted (likewise), the pending \<open>setTimeout\<close> callbacks as
  (due time, clientId, ws) in the order they were set, and the log.
\<close>

record server =
  clock :: nat
  recognitionProcesses :: "nat \<rightharpoonup> nat"
  chatProcesses :: "nat \<rightharpoonup> nat"
  workers :: "worker list"
  sockets :: "socket list"
  timers :: "(nat \<times> nat \<times> nat) list"
  logged :: "logline list"

definition initial :: server where
  "initial = \<lparr>clock = 0, recognitionProcesses = Map.empty, chatProcesses = Map.empty,
              workers = [], sockets = [], timers = [], logged = []\<rparr>"

datatype event =
    Connect jsstring "jsstring option"
  | ClientMessage nat jsstring
  | ClientClose nat
  | WorkerStdout nat bytes
  | WorkerStderr nat bytes
  | WorkerExit nat "int option"
  | Advance nat
  | TimerFire "jsstring option"

subsection \<open>Helpers shared by the handlers\<close>

definition info :: "logline \<Rightarrow> server \<Rightarrow> server" where
  "info l s = s\<lparr>logged := logged s @ [l]\<rparr>"

definition ws_open :: "nat \<Rightarrow> server \<Rightarrow> bool" where
  "ws_open w s = (w < length (sockets s) \<and> isOpen (sockets s ! w))"

text \<open>\<^verbatim>\<open>if (ws.readyState === WebSocket.OPEN) { ws.send(JSON.stringify(v)); }\<close>\<close>

definition send_if_open :: "nat \<Rightarrow> json \<Rightarrow> server \<Rightarrow> server" where
  "send_if_open w v s =
     (if ws_open w s
      then s\<lparr>sockets := (sockets s)[w := (sockets s ! w)\<lparr>sent := sent (sockets s ! w) @ [v]\<rparr>]\<rparr>
      else s)"

text \<open>\<open>p.stdin.write(JSON.stringify(v) + '\n')\<close>\<close>

definition stdin_write :: "nat \<Rightarrow> json \<Rightarrow> server \<Rightarrow> server" where
  "stdin_write p v s =
     (if p < length (workers s)
      then s\<lparr>workers := (workers s)[p := (workers s ! p)\<lparr>stdin := stdin (workers s ! p) @ [v]\<rparr>]\<rparr>
      else s)"

text \<open>\<open>spawn('python', [script, dbPath])\<close> when it returns a process: the new process
  is the next position of \<open>workers\<close>.\<close>

definition spawn :: "kind \<Rightarrow> nat \<Rightarrow> nat \<Rightarrow> server \<Rightarrow> server" where
  "spawn k cid w s =
     s\<lparr>workers := workers s @
        [\<lparr>wkind = k, wclient = cid, wsocket = w, stdin = [], buffer = [],
          killed = False, closed = False\<rparr>]\<rparr>"

definition set_process :: "nat \<Rightarrow> nat option \<Rightarrow> server \<Rightarrow> server" where
  "set_process w p s =
     (if w < length (sockets s)
      then s\<lparr>sockets := (sockets s)[w := (sockets s ! w)\<lparr>process := p\<rparr>]\<rparr>
      else s)"

definition kill :: "nat \<Rightarrow> server \<Rightarrow> server" where
  "kill p s =
     (if p < length (workers s)
      then s\<lparr>workers := (workers s)[p := (workers s ! p)\<lparr>killed := True\<rparr>]\<rparr>
      else s)"

definition live :: "nat \<Rightarrow> server \<Rightarrow> bool" where
  "live p s = (p < length (workers s) \<and> \<not> closed (workers s ! p))"

subsection \<open>Starting a worker\<close>

text \<open>
  Whether \<open>spawn\<close> returns or throws is decided outside the program, so it is an
  argument: \<open>None\<close> when it returns a process, \<open>Some msg\<close> when it throws an error
  whose \<open>message\<close> is \<open>msg\<close> (the \<open>catch\<close> branch). A launch failure that Node
  reports by the process's \<open>error\<close> event is a spawn that returns, followed by the
  occurrence \<open>ChildError\<close> below.

  \<open>startChatProcess(clientId, ws)\<close> returns the process, or \<open>null\<close>.
\<close>

definition startChatProcess :: "nat \<Rightarrow> nat \<Rightarrow> jsstring option \<Rightarrow> server \<Rightarrow> nat option \<times> server" where
  "startChatProcess cid w fail s =
     (case fail of
        None \<Rightarrow>
          (let p = length (workers s);
               s1 = spawn Chat cid w s;
               s2 = s1\<lparr>chatProcesses := (chatProcesses s1)(cid \<mapsto> p)\<rparr>
           in (Some p, info (Started Chat cid) s2))
      | Some msg \<Rightarrow>
          (None,
           send_if_open w
             (system_message ''Unable to start chat service. Please try again later.'')
             (info (FailedToStart Chat msg) s)))"

text \<open>\<open>startRecognitionProcess()\<close> assigns the connection's variable \<open>recognitionProcess\<close>
  itself.\<close>

definition startRecognitionProcess :: "nat \<Rightarrow> nat \<Rightarrow> jsstring option \<Rightarrow> server \<Rightarrow> server" where
  "startRecognitionProcess cid w fail s =
     (case fail of
        None \<Rightarrow>
          (let p = length (workers s);
               s1 = set_process w (Some p) (spawn Recognition cid w s);
               s2 = s1\<lparr>recognitionProcesses := (recognitionProcesses s1)(cid \<mapsto> p)\<rparr>
           in info (Started Recognition cid) s2)
      | Some msg \<Rightarrow>
          send_if_open w
            (system_message ''Failed to start recognition service. Please try again.'')
            (info (FailedToStart Recognition msg) s))"

subsection \<open>Handlers of a worker's events\<close>

text \<open>
  \<open>JSON.parse\<close> is a parameter \<open>parse\<close> of the handlers that call it: \<open>None\<close> when it
  throws a SyntaxError.

  The body of \<open>lines.forEach\<close> of the chat worker.
\<close>

definition chat_line :: "(jsstring \<Rightarrow> json option) \<Rightarrow> nat \<Rightarrow> jsstring \<Rightarrow> server \<Rightarrow> server" where
  "chat_line parse w line s =
     (if trim line = [] then s
      else case parse line of
        Some result \<Rightarrow>
          (if ws_open w s then send_if_open w result (info (ChatOutput result) s) else s)
      | None \<Rightarrow>
          send_if_open w
            (system_message ''Chat service encountered an issue. Please try again.'')
            (info (InvalidJson Chat line) s))"

text \<open>The body of \<open>lines.forEach\<close> of the recognition worker.\<close>

definition recognition_line :: "(jsstring \<Rightarrow> json option) \<Rightarrow> nat \<Rightarrow> jsstring \<Rightarrow> server \<Rightarrow> server" where
  "recognition_line parse w line s =
     (if trim line = [] then s
      else case parse line of
        Some result \<Rightarrow> send_if_open w result s
      | None \<Rightarrow> info (InvalidJson Recognition line) s)"

definition stdout_line :: "(jsstring \<Rightarrow> json option) \<Rightarrow> kind \<Rightarrow> nat \<Rightarrow> jsstring \<Rightarrow> server \<Rightarrow> server" where
  "stdout_line parse k w line s =
     (case k of
        Chat \<Rightarrow> chat_line parse w line s
      | Recognition \<Rightarrow> recognition_line parse w line s)"

text \<open>\<open>stdout.on('data')\<close> of process \<open>p\<close>: the framer, then each complete line in order.\<close>

definition stdout_data :: "(jsstring \<Rightarrow> json option) \<Rightarrow> nat \<Rightarrow> bytes \<Rightarrow> server \<Rightarrow> server" where
  "stdout_data parse p data s =
     (let wk = workers s ! p;
          (lines, buffer') = framer (buffer wk) data;
          s1 = s\<lparr>workers := (workers s)[p := wk\<lparr>buffer := buffer'\<rparr>]\<rparr>
      in fold (stdout_line parse (wkind wk) (wsocket wk)) lines s1)"

text \<open>\<open>stderr.on('data')\<close>: logged, never sent.\<close>

definition stderr_data :: "nat \<Rightarrow> bytes \<Rightarrow> server \<Rightarrow> server" where
  "stderr_data p data s = info (ProcessError (wkind (workers s ! p)) (toString data)) s"

text \<open>\<open>chatProcess.on('close')\<close>: the entry is deleted; if the client is still connected
  it is told and \<open>setTimeout(() => startChatProcess(clientId, ws), 1000)\<close> is set.\<close>

definition chat_close :: "nat \<Rightarrow> int option \<Rightarrow> server \<Rightarrow> server" where
  "chat_close p code s =
     (let cid = wclient (workers s ! p);
          w = wsocket (workers s ! p);
          s1 = info (ProcessClosed Chat code) s;
          s2 = s1\<lparr>chatProcesses := (chatProcesses s1)(cid := None)\<rparr>
      in if ws_open w s2
         then (let s3 = send_if_open w
                          (system_message ''Chat process terminated, restarting...'') s2
               in s3\<lparr>timers := timers s3 @ [(clock s3 + 1000, cid, w)]\<rparr>)
         else s2)"

text \<open>\<open>recognitionProcess.on('close')\<close>\<close>

definition recognition_close :: "nat \<Rightarrow> int option \<Rightarrow> server \<Rightarrow> server" where
  "recognition_close p code s =
     (let cid = wclient (workers s ! p);
          s1 = info (ProcessClosed Recognition code) s
      in s1\<lparr>recognitionProcesses := (recognitionProcesses s1)(cid := None)\<rparr>)"

definition process_close :: "nat \<Rightarrow> int option \<Rightarrow> server \<Rightarrow> server" where
  "process_close p code s =
     (let s1 = s\<lparr>workers := (workers s)[p := (workers s ! p)\<lparr>closed := True\<rparr>]\<rparr>
      in case wkind (workers s ! p) of
           Chat \<Rightarrow> chat_close p code s1
         | Recognition \<Rightarrow> recognition_close p code s1)"

subsection \<open>Handlers of a connection's events\<close>

text \<open>
  \<open>ws.on('message')\<close> of a chat connection. Three statements of the \<open>try\<close> block can
  throw, and the \<open>catch\<close> handles them alike: \<open>JSON.parse\<close>; \<open>data.type\<close> when
  \<open>data\<close> is \<open>null\<close>; and the log line \<open>`Received chat query: ${data.query}`\<close>, which
  comes before the write, when the query cannot be converted to a string.
\<close>

definition chat_message :: "(jsstring \<Rightarrow> json option) \<Rightarrow> nat \<Rightarrow> jsstring \<Rightarrow> server \<Rightarrow> server" where
  "chat_message parse w message s =
     (case parse message of
        None \<Rightarrow>
          send_if_open w (system_message ''Invalid message format. Please try again.'')
            (info (MessageError Chat) s)
      | Some JNull \<Rightarrow>
          send_if_open w (system_message ''Invalid message format. Please try again.'')
            (info (MessageError Chat) s)
      | Some data \<Rightarrow>
          (case process (sockets s ! w) of
             Some p \<Rightarrow>
               (if member data (str ''type'') = Some (JStr (str ''query''))
                then (if throws_in_template (member data (str ''query''))
                      then send_if_open w
                             (system_message ''Invalid message format. Please try again.'')
                             (info (MessageError Chat) s)
                      else stdin_write p
                             (payload ''query'' (member data (str ''query'')) (clock s))
                             (info (ReceivedQuery (member data (str ''query''))) s))
                else s)
           | None \<Rightarrow> s))"

text \<open>\<open>ws.on('message')\<close> of a recognition connection.\<close>

definition recognition_message :: "(jsstring \<Rightarrow> json option) \<Rightarrow> nat \<Rightarrow> jsstring \<Rightarrow> server \<Rightarrow> server" where
  "recognition_message parse w message s =
     (case parse message of
        None \<Rightarrow> info (MessageError Recognition) s
      | Some JNull \<Rightarrow> info (MessageError Recognition) s
      | Some data \<Rightarrow>
          (case process (sockets s ! w) of
             Some p \<Rightarrow>
               (if member data (str ''type'') = Some (JStr (str ''frame''))
                then stdin_write p
                       (payload ''image'' (member data (str ''image'')) (clock s)) s
                else s)
           | None \<Rightarrow> s))"

text \<open>\<open>ws.on('close')\<close>, the chat branch and the recognition branch.\<close>

definition chat_ws_close :: "nat \<Rightarrow> server \<Rightarrow> server" where
  "chat_ws_close w s =
     (let cid = clientId (sockets s ! w);
          s1 = info (ConnectionClosed Chat cid) s
      in case chatProcesses s1 cid of
           Some p \<Rightarrow>
             (let s2 = info (Terminated Chat cid) (kill p s1)
              in s2\<lparr>chatProcesses := (chatProcesses s2)(cid := None)\<rparr>)
         | None \<Rightarrow> s1)"

definition recognition_ws_close :: "nat \<Rightarrow> server \<Rightarrow> server" where
  "recognition_ws_close w s =
     (let cid = clientId (sockets s ! w);
          s1 = info (ConnectionClosed Recognition cid) s
      in case recognitionProcesses s1 cid of
           Some p \<Rightarrow>
             (let s2 = info (Terminated Recognition cid) (kill p s1)
              in s2\<lparr>recognitionProcesses := (recognitionProcesses s2)(cid := None)\<rparr>)
         | None \<Rightarrow> s1)"

text \<open>
  \<open>wss.on('connection')\<close>: the id is the clock, the kind is read off the requested
  URL, the worker is started and the handlers above are registered.
\<close>

definition classify :: "jsstring \<Rightarrow> kind" where
  "classify url = (if url = str ''/chat'' then Chat else Recognition)"

definition connection :: "jsstring \<Rightarrow> jsstring option \<Rightarrow> server \<Rightarrow> server" where
  "connection url fail s =
     (let cid = clock s;
          w = length (sockets s);
          k = classify url;
          s1 = s\<lparr>sockets := sockets s @
                 [\<lparr>clientId = cid, isChatWs = (k = Chat), isOpen = True,
                   process = None, sent = []\<rparr>]\<rparr>;
          s2 = info (NewConnection k cid) s1
      in case k of
           Chat \<Rightarrow> (let (p, s3) = startChatProcess cid w fail s2 in set_process w p s3)
         | Recognition \<Rightarrow> startRecognitionProcess cid w fail s2)"

subsection \<open>The event loop\<close>

text \<open>
  One event at a time. An event for a connection that is not open, or a process whose
  \<open>close\<close> has been delivered, does not occur and changes nothing. \<open>Advance\<close> lets time
  pass; \<open>TimerFire\<close> runs the oldest pending \<open>setTimeout\<close> callback once it is due (all
  delays are equal, so the oldest is the first due), with the outcome of its \<open>spawn\<close>.
\<close>

fun step :: "(jsstring \<Rightarrow> json option) \<Rightarrow> event \<Rightarrow> server \<Rightarrow> server" where
  "step parse (Connect url fail) s = connection url fail s"
| "step parse (ClientMessage w message) s =
     (if ws_open w s
      then (if isChatWs (sockets s ! w) then chat_message parse w message s
            else recognition_message parse w message s)
      else s)"
| "step parse (ClientClose w) s =
     (if ws_open w s
      then (let s1 = s\<lparr>sockets := (sockets s)[w := (sockets s ! w)\<lparr>isOpen := False\<rparr>]\<rparr>
            in if isChatWs (sockets s ! w) then chat_ws_close w s1
               else recognition_ws_close w s1)
      else s)"
| "step parse (WorkerStdout p data) s = (if live p s then stdout_data parse p data s else s)"
| "step parse (WorkerStderr p data) s = (if live p s then stderr_data p data s else s)"
| "step parse (WorkerExit p code) s = (if live p s then process_close p code s else s)"
| "step parse (Advance d) s = s\<lparr>clock := clock s + d\<rparr>"
| "step parse (TimerFire fail) s =
     (case timers s of
        [] \<Rightarrow> s
      | (due, cid, w) # rest \<Rightarrow>
          (if due \<le> clock s
           then snd (startChatProcess cid w fail (s\<lparr>timers := rest\<rparr>))
           else s))"

fun run :: "(jsstring \<Rightarrow> json option) \<Rightarrow> event list \<Rightarrow> server \<Rightarrow> server" where
  "run parse [] s = s"
| "run parse (e # es) s = run parse es (step parse e s)"

subsection \<open>Events without a handler\<close>

text \<open>
  A child process also emits \<open>error\<close>: this is how Node reports that the program could
  not be launched (ENOENT, EACCES and the like), after \<open>spawn\<close> has returned the
  process object. The source registers no listener for it on any process, and no
  handler for uncaught exceptions, so the event is thrown as an uncaught exception and
  the server process ends: \<open>None\<close>. Every other event is handled by \<open>step\<close>.
\<close>

datatype occurrence =
    Handled event
  | ChildError nat jsstring

fun deliver :: "(jsstring \<Rightarrow> json option) \<Rightarrow> occurrence \<Rightarrow> server \<Rightarrow> server option" where
  "deliver parse (Handled e) s = Some (step parse e s)"
| "deliver parse (ChildError p msg) s = (if live p s then None else Some s)"

fun serve :: "(jsstring \<Rightarrow> json option) \<Rightarrow> occurrence list \<Rightarrow> server \<Rightarrow> server option" where
  "serve parse [] s = Some s"
| "serve parse (x # xs) s =
     (case deliver parse x s of
        None \<Rightarrow> None
      | Some s' \<Rightarrow> serve parse xs s')"

subsection \<open>Sample inputs\<close>

text \<open>ASCII text as the bytes a worker writes.\<close>

definition ascii :: "string \<Rightarrow> bytes" where
  "ascii s = map of_char s"

text \<open>
  Sample texts: a result line of a recognition worker, a chat query, a frame, a
  query whose value has an own \<open>toString\<close>, and a message of no known shape; and the
  values they parse to.
\<close>

definition result_text :: string where
  \<open>result_text = ''{"type":"recognition_result","faces":[]}''\<close>

definition result_json :: json where
  "result_json =
     JObj [(str ''type'', JStr (str ''recognition_result'')), (str ''faces'', JArr [])]"

definition query_text :: string where
  \<open>query_text = ''{"type":"query","query":"hi"}''\<close>

definition query_json :: json where
  "query_json = JObj [(str ''type'', JStr (str ''query'')), (str ''query'', JStr (str ''hi''))]"

definition frame_text :: string where
  \<open>frame_text = ''{"type":"frame","image":"data:,"}''\<close>

definition frame_json :: json where
  "frame_json =
     JObj [(str ''type'', JStr (str ''frame'')), (str ''image'', JStr (str ''data:,''))]"

definition poison_text :: string where
  \<open>poison_text = ''{"type":"query","query":{"toString":1}}''\<close>

definition poison_json :: json where
  "poison_json =
     JObj [(str ''type'', JStr (str ''query'')),
           (str ''query'', JObj [(str ''toString'', JNum 1)])]"

definition ping_text :: string where
  \<open>ping_text = ''{"type":"ping"}''\<close>

definition ping_json :: json where
  "ping_json = JObj [(str ''type'', JStr (str ''ping''))]"

text \<open>
  \<open>JSON.parse\<close> on the sample texts. Every other text the concrete runs below hand to
  it is not JSON.
\<close>

definition sample_parse :: "jsstring \<Rightarrow> json option" where
  "sample_parse s =
     (if s = str result_text then Some result_json
      else if s = str query_text then Some query_json
      else if s = str frame_text then Some frame_json
      else if s = str ping_text then Some ping_json
      else if s = str poison_text then Some poison_json
      else None)"

text \<open>The server after its first connection, to \<open>/ws\<close> and to \<open>/chat\<close>, the worker
  spawned.\<close>

definition recognition_session :: server where
  "recognition_session = step sample_parse (Connect (str ''/ws'') None) initial"

definition chat_session :: server where
  "chat_session = step sample_parse (Connect (str ''/chat'') None) initial"

text \<open>The server after a first connection to \<open>/chat\<close> whose \<open>spawn\<close> threw.\<close>

definition unserved_session :: server where
  "unserved_session =
     step sample_parse (Connect (str ''/chat'') (Some (str ''spawn ENOMEM''))) initial"

text \<open>
  A chat client connects, its worker exits, the client disconnects within the second
  of backoff, and the restart timer fires.
\<close>

definition restart_leak :: "event list" where
  "restart_leak =
     [Connect (str ''/chat'') None, WorkerExit 0 (Some 1), ClientClose 0, Advance 1000,
      TimerFire None]"

text \<open>
  A client connects to \<open>/ws\<close> on a host without a \<open>python\<close> program: \<open>spawn\<close>
  returns, and the process then emits \<open>error\<close>.
\<close>

definition launch_failure :: "occurrence list" where
  "launch_failure =
     [Handled (Connect (str ''/ws'') None), ChildError 0 (str ''spawn python ENOENT'')]"

text \<open>Two chat clients connect within one millisecond, then both disconnect.\<close>

definition same_millisecond :: "event list" where
  "same_millisecond =
     [Connect (str ''/chat'') None, Connect (str ''/chat'') None, ClientClose 0,
      ClientClose 1]"

section \<open>Properties\<close>

subsection \<open>What the helpers change\<close>

lemma info_fields [simp]:
  "sockets (info l s) = sockets s"
  "workers (info l s) = workers s"
  "timers (info l s) = timers s"
  "clock (info l s) = clock s"
  "chatProcesses (info l s) = chatProcesses s"
  "recognitionProcesses (info l s) = recognitionProcesses s"
  "logged (info l s) = logged s @ [l]"
  by (simp_all add: info_def)

lemma ws_open_info [simp]: "ws_open w (info l s) = ws_open w s"
  by (simp add: ws_open_def)

lemma send_if_open_fields [simp]:
  "workers (send_if_open w v s) = workers s"
  "timers (send_if_open w v s) = timers s"
  "clock (send_if_open w v s) = clock s"
  "chatProcesses (send_if_open w v s) = chatProcesses s"
  "recognitionProcesses (send_if_open w v s) = recognitionProcesses s"
  "logged (send_if_open w v s) = logged s"
  "length (sockets (send_if_open w v s)) = length (sockets s)"
  by (simp_all add: send_if_open_def)

text \<open>The definitions a concrete run unfolds.\<close>

lemmas handler_defs =
  connection_def classify_def startChatProcess_def startRecognitionProcess_def
  spawn_def set_process_def send_if_open_def ws_open_def info_def live_def kill_def
  process_close_def chat_close_def recognition_close_def chat_ws_close_def
  recognition_ws_close_def stdin_write_def initial_def str_def

lemmas sample_defs =
  result_text_def result_json_def query_text_def query_json_def frame_text_def
  frame_json_def ping_text_def ping_json_def poison_text_def poison_json_def
  recognition_session_def chat_session_def unserved_session_def sample_parse_def
  ascii_def nl_def
  restart_leak_def same_millisecond_def launch_failure_def

lemmas eval_defs =
  toString_def lead_def utf16_def stdout_data_def framer_def stdout_line_def
  recognition_line_def chat_line_def trim_def whitespace_def Let_def

subsection \<open>Classifying a connection\<close>

text \<open>
  Claim C9. The kind of a new connection is read off the requested URL alone: it is a
  chat session exactly when the URL is \<open>/chat\<close> and a recognition session for every
  other URL. Whatever the URL, the state or the outcome of the spawn, the connection is
  accepted (it is added, open), and a worker that is spawned is of that kind.
\<close>

theorem kind_classification:
  "length (sockets (step parse (Connect url fail) s)) = Suc (length (sockets s)) \<and>
   isOpen (sockets (step parse (Connect url fail) s) ! length (sockets s)) \<and>
   isChatWs (sockets (step parse (Connect url fail) s) ! length (sockets s))
     = (url = str ''/chat'') \<and>
   (classify url = Chat) = (url = str ''/chat'') \<and>
   (classify url = Recognition) = (url \<noteq> str ''/chat'') \<and>
   wkind (workers (step parse (Connect url None) s) ! length (workers s)) = classify url"
  by (simp add: connection_def classify_def startChatProcess_def startRecognitionProcess_def
      spawn_def set_process_def send_if_open_def ws_open_def info_def Let_def nth_append
      split: option.split)

subsection \<open>A worker that cannot be launched\<close>

text \<open>
  When \<open>spawn\<close> itself throws, the \<open>catch\<close> branches do what is intended: the new
  client is sent exactly one message, the fixed \<open>system\<close> notice of its kind, which
  does not mention the error's message; the handler's process variable stays \<open>null\<close>,
  and neither registry nor the set of workers changes.
\<close>

lemma spawn_throw_handled:
  "sent (sockets (step parse (Connect url (Some msg)) s) ! length (sockets s)) =
     [system_message (case classify url of
        Chat \<Rightarrow> ''Unable to start chat service. Please try again later.''
      | Recognition \<Rightarrow> ''Failed to start recognition service. Please try again.'')] \<and>
   process (sockets (step parse (Connect url (Some msg)) s) ! length (sockets s)) = None \<and>
   take (length (sockets s)) (sockets (step parse (Connect url (Some msg)) s)) = sockets s \<and>
   chatProcesses (step parse (Connect url (Some msg)) s) = chatProcesses s \<and>
   recognitionProcesses (step parse (Connect url (Some msg)) s) = recognitionProcesses s \<and>
   workers (step parse (Connect url (Some msg)) s) = workers s \<and>
   timers (step parse (Connect url (Some msg)) s) = timers s"
  by (simp add: connection_def classify_def startChatProcess_def startRecognitionProcess_def
      spawn_def set_process_def send_if_open_def ws_open_def info_def Let_def nth_append)

text \<open>
  Claim C7. In the run \<open>launch_failure\<close> the worker cannot be launched and Node says so
  by the process's \<open>error\<close> event. After the connection is accepted the registry has an
  entry for the session, the start is logged as a success and the client has been sent
  nothing; the \<open>error\<close> event then ends the server. The same happens on \<open>/chat\<close>.
\<close>

theorem launch_failure_unhandled:
  "serve sample_parse (take 1 launch_failure) initial = Some recognition_session \<and>
   recognitionProcesses recognition_session 0 = Some 0 \<and>
   map sent (sockets recognition_session) = [[]] \<and>
   logged recognition_session = [NewConnection Recognition 0, Started Recognition 0] \<and>
   serve sample_parse launch_failure initial = None \<and>
   chatProcesses chat_session 0 = Some 0 \<and>
   map sent (sockets chat_session) = [[]] \<and>
   serve sample_parse [ChildError 0 (str ''spawn python ENOENT'')] chat_session = None"
  by (simp add: sample_defs handler_defs Let_def)

subsection \<open>A recognition worker that exits\<close>

text \<open>
  Claim C4. When the \<open>close\<close> event of a recognition worker is delivered, the entry of
  its client id is removed from \<open>recognitionProcesses\<close>; no process is spawned (the
  worker list only marks this one closed), no timer is set, and nothing is sent on any
  connection.
\<close>

theorem recognition_non_restart:
  assumes "live p s" and "wkind (workers s ! p) = Recognition"
  shows "recognitionProcesses (step parse (WorkerExit p code) s) (wclient (workers s ! p)) = None \<and>
         workers (step parse (WorkerExit p code) s) =
           (workers s)[p := (workers s ! p)\<lparr>closed := True\<rparr>] \<and>
         timers (step parse (WorkerExit p code) s) = timers s \<and>
         sockets (step parse (WorkerExit p code) s) = sockets s \<and>
         chatProcesses (step parse (WorkerExit p code) s) = chatProcesses s"
  using assms by (simp add: process_close_def recognition_close_def live_def Let_def)

theorem recognition_non_restart_witness:
  "live 0 (step sample_parse (Connect (str ''/ws'') None) initial) \<and>
   wkind (workers (step sample_parse (Connect (str ''/ws'') None) initial) ! 0) = Recognition \<and>
   recognitionProcesses (step sample_parse (Connect (str ''/ws'') None) initial) 0 = Some 0 \<and>
   recognitionProcesses
     (run sample_parse [Connect (str ''/ws'') None, WorkerExit 0 (Some 1)] initial) 0 = None \<and>
   length (workers
     (run sample_parse [Connect (str ''/ws'') None, WorkerExit 0 (Some 1)] initial)) = 1 \<and>
   timers (run sample_parse [Connect (str ''/ws'') None, WorkerExit 0 (Some 1)] initial) = [] \<and>
   sent (sockets
     (run sample_parse [Connect (str ''/ws'') None, WorkerExit 0 (Some 1)] initial) ! 0) = []"
  using recognition_non_restart
      [of 0 "step sample_parse (Connect (str ''/ws'') None) initial" sample_parse "Some 1"]
  by (simp add: handler_defs Let_def)

subsection \<open>Lines of white space\<close>

lemma dropWhile_all: "(\<forall>x\<in>set (dropWhile P xs). P x) \<longleftrightarrow> (\<forall>x\<in>set xs. P x)"
  by (induction xs) auto

lemma trim_empty: "trim s = [] \<longleftrightarrow> list_all whitespace s"
  by (simp add: trim_def dropWhile_all list_all_iff)

text \<open>
  Claim C10. Both line handlers test \<open>line.trim() === ''\<close>, so a line made only of
  characters that \<open>trim\<close> strips (the empty line included) leaves the whole state as it
  was: nothing is sent to the client and nothing is logged.
\<close>

theorem whitespace_line_skipped:
  assumes "list_all whitespace line"
  shows "chat_line parse w line s = s \<and> recognition_line parse w line s = s \<and>
         stdout_line parse k w line s = s"
  using assms
  by (simp add: chat_line_def recognition_line_def stdout_line_def trim_empty split: kind.split)

theorem whitespace_line_skipped_witness:
  "list_all whitespace [0x20, 0x09, 0x0D, 0x3000] \<and>
   chat_line sample_parse 0 [0x20, 0x09, 0x0D, 0x3000]
       (step sample_parse (Connect (str ''/chat'') None) initial)
     = step sample_parse (Connect (str ''/chat'') None) initial \<and>
   recognition_line sample_parse 0 [0x20, 0x09, 0x0D, 0x3000]
       (step sample_parse (Connect (str ''/ws'') None) initial)
     = step sample_parse (Connect (str ''/ws'') None) initial"
  using whitespace_line_skipped
      [of "[0x20, 0x09, 0x0D, 0x3000]" sample_parse 0
        "step sample_parse (Connect (str ''/chat'') None) initial"]
    whitespace_line_skipped
      [of "[0x20, 0x09, 0x0D, 0x3000]" sample_parse 0
        "step sample_parse (Connect (str ''/ws'') None) initial"]
  by (simp add: whitespace_def)

subsection \<open>The framer on decoded text\<close>

lemma split_not_Nil [simp]: "split s \<noteq> []"
  by (induction s) (auto split: list.split)

lemma split_no_nl: "nl \<notin> set s \<Longrightarrow> split s = [s]"
  by (induction s) auto


lemma split_segments: "x \<in> set (split s) \<Longrightarrow> nl \<notin> set x"
proof (induction s arbitrary: x)
  case Nil
  then show ?case by simp
next
  case (Cons c cs)
  show ?case
  proof (cases "split cs")
    case Nil
    then show ?thesis by simp
  next
    case (Cons y ys)
    with Cons.prems Cons.IH show ?thesis
      by (auto split: if_splits)
  qed
qed

lemma last_split_no_nl: "nl \<notin> set (last (split s))"
  by (rule split_segments [of _ s]) simp

lemma split_append: "split (a @ b) = butlast (split a) @ split (last (split a) @ b)"
proof (induction a)
  case Nil
  then show ?case by simp
next
  case (Cons c a)
  show ?case
  proof (cases "split a")
    case Nil
    then show ?thesis by simp
  next
    case outer: (Cons x xs)
    show ?thesis
    proof (cases xs)
      case Nil
      with outer Cons.IH show ?thesis by simp
    next
      case (Cons y ys)
      with outer Cons.IH show ?thesis by simp
    qed
  qed
qed

lemma split_line: "nl \<notin> set m \<Longrightarrow> split (m @ nl # t) = m # split t"
  by (induction m) auto

lemma split_lines:
  "\<forall>m\<in>set M. nl \<notin> set m \<Longrightarrow> nl \<notin> set rest \<Longrightarrow>
   split (concat (map (\<lambda>m. m @ [nl]) M) @ rest) = M @ [rest]"
  by (induction M) (simp_all add: split_no_nl split_line)

lemma framer_run_split:
  "nl \<notin> set b \<Longrightarrow>
   framer_run b chunks =
     (butlast (split (b @ concat (map toString chunks))),
      last (split (b @ concat (map toString chunks))))"
proof (induction chunks arbitrary: b)
  case Nil
  then show ?case by (simp add: split_no_nl)
next
  case (Cons c cs)
  have "nl \<notin> set (last (split (b @ toString c)))"
    by (rule last_split_no_nl)
  from Cons.IH [OF this]
  have run: "framer_run (last (split (b @ toString c))) cs =
     (butlast (split (last (split (b @ toString c)) @ concat (map toString cs))),
      last (split (last (split (b @ toString c)) @ concat (map toString cs))))" .
  have whole: "split (b @ toString c @ concat (map toString cs)) =
      butlast (split (b @ toString c)) @
      split (last (split (b @ toString c)) @ concat (map toString cs))"
    using split_append [of "b @ toString c" "concat (map toString cs)"] by simp
  show ?case
    by (simp add: framer_def Let_def run whole butlast_append)
qed

text \<open>
  On decoded text the framer does not depend on the chunking: whenever the decoded
  chunks concatenate to the lines of \<open>M\<close>, each followed by a line feed, and an
  unfinished rest, the framer emits exactly \<open>M\<close> and keeps the rest as its buffer.
\<close>

lemma framer_chunk_invariance:
  assumes "\<forall>m\<in>set M. nl \<notin> set m" and "nl \<notin> set rest"
    and "concat (map toString chunks) = concat (map (\<lambda>m. m @ [nl]) M) @ rest"
  shows "framer_run [] chunks = (M, rest)"
  using assms by (simp add: framer_run_split split_lines)

text \<open>
  A run of \<open>data\<close> events of one worker handles the complete lines of the whole
  decoded text in order and leaves the unfinished rest in the buffer.
\<close>

lemma stdout_line_workers [simp]: "workers (stdout_line parse k w l s) = workers s"
  by (simp add: stdout_line_def chat_line_def recognition_line_def split: kind.split option.split)

lemma stdout_line_update:
  "stdout_line parse k w l (s\<lparr>workers := X\<rparr>) = (stdout_line parse k w l s)\<lparr>workers := X\<rparr>"
  by (simp add: stdout_line_def chat_line_def recognition_line_def send_if_open_def ws_open_def
      info_def split: kind.split option.split)

lemma fold_stdout_line_workers [simp]:
  "workers (fold (stdout_line parse k w) ls s) = workers s"
  by (induction ls arbitrary: s) simp_all

lemma fold_stdout_line_update:
  "fold (stdout_line parse k w) ls (s\<lparr>workers := X\<rparr>) =
   (fold (stdout_line parse k w) ls s)\<lparr>workers := X\<rparr>"
  by (induction ls arbitrary: s) (simp_all add: stdout_line_update)

lemma stdout_run:
  assumes "live p s" and "nl \<notin> set (buffer (workers s ! p))"
  shows "run parse (map (WorkerStdout p) chunks) s =
     (fold (stdout_line parse (wkind (workers s ! p)) (wsocket (workers s ! p)))
        (butlast (split (buffer (workers s ! p) @ concat (map toString chunks)))) s)
     \<lparr>workers := (workers s)[p := (workers s ! p)
        \<lparr>buffer := last (split (buffer (workers s ! p) @ concat (map toString chunks)))\<rparr>]\<rparr>"
  using assms
proof (induction chunks arbitrary: s)
  case Nil
  then show ?case by (simp add: split_no_nl)
next
  case (Cons c cs)
  define b where "b = buffer (workers s ! p)"
  define k where "k = wkind (workers s ! p)"
  define w where "w = wsocket (workers s ! p)"
  define b1 where "b1 = last (split (b @ toString c))"
  define s1 where "s1 = stdout_data parse p c s"
  have p: "p < length (workers s)" and unclosed: "\<not> closed (workers s ! p)"
    using Cons.prems(1) by (simp_all add: live_def)
  have s1: "s1 = (fold (stdout_line parse k w) (butlast (split (b @ toString c))) s)
      \<lparr>workers := (workers s)[p := (workers s ! p)\<lparr>buffer := b1\<rparr>]\<rparr>"
    by (simp add: s1_def stdout_data_def framer_def Let_def b_def k_def w_def b1_def
        fold_stdout_line_update)
  have wk1: "workers s1 ! p = (workers s ! p)\<lparr>buffer := b1\<rparr>"
    using p by (simp add: s1)
  have live1: "live p s1"
    using p unclosed by (simp add: live_def s1)
  have nl1: "nl \<notin> set (buffer (workers s1 ! p))"
    by (simp add: wk1 b1_def last_split_no_nl)
  have whole: "split (b @ toString c @ concat (map toString cs)) =
      butlast (split (b @ toString c)) @ split (b1 @ concat (map toString cs))"
    using split_append [of "b @ toString c" "concat (map toString cs)"] by (simp add: b1_def)
  have "run parse (map (WorkerStdout p) (c # cs)) s = run parse (map (WorkerStdout p) cs) s1"
    using Cons.prems(1) by (simp add: s1_def)
  also have "\<dots> = (fold (stdout_line parse k w)
        (butlast (split (b1 @ concat (map toString cs)))) s1)
     \<lparr>workers := (workers s1)[p := (workers s1 ! p)
        \<lparr>buffer := last (split (b1 @ concat (map toString cs)))\<rparr>]\<rparr>"
    using Cons.IH [OF live1 nl1] by (simp add: wk1 k_def w_def)
  also have "\<dots> = (fold (stdout_line parse k w)
        (butlast (split (b @ toString c @ concat (map toString cs)))) s)
     \<lparr>workers := (workers s)[p := (workers s ! p)
        \<lparr>buffer := last (split (b @ toString c @ concat (map toString cs)))\<rparr>]\<rparr>"
    using p by (simp add: s1 whole butlast_append fold_stdout_line_update)
  finally show ?case
    by (simp add: b_def k_def w_def)
qed

subsection \<open>A malformed line between two results\<close>

text \<open>
  Claim C5, amended. A recognition worker whose client is connected writes a valid
  line, a line that is not JSON and not blank, and another valid line, each ended by
  a line feed, in chunks that decode to that text. Then the client is sent exactly the
  two parsed values, in order; exactly one error is logged, for the malformed line; the
  worker is still supervised, its buffer is empty again, the connection is still open
  and the registry is unchanged. (Valid JSON is never blank.)
\<close>

theorem malformed_line_tolerance:
  assumes "live p s" and "wkind (workers s ! p) = Recognition"
    and "buffer (workers s ! p) = []"
    and "ws_open (wsocket (workers s ! p)) s"
    and "nl \<notin> set l1" and "nl \<notin> set l2" and "nl \<notin> set l3"
    and "parse l1 = Some j1" and "parse l2 = None" and "parse l3 = Some j3"
    and "\<not> list_all whitespace l1" and "\<not> list_all whitespace l2"
    and "\<not> list_all whitespace l3"
    and "concat (map toString chunks) = l1 @ [nl] @ l2 @ [nl] @ l3 @ [nl]"
  shows "sent (sockets (run parse (map (WorkerStdout p) chunks) s) ! wsocket (workers s ! p)) =
           sent (sockets s ! wsocket (workers s ! p)) @ [j1, j3] \<and>
         logged (run parse (map (WorkerStdout p) chunks) s) =
           logged s @ [InvalidJson Recognition l2] \<and>
         live p (run parse (map (WorkerStdout p) chunks) s) \<and>
         buffer (workers (run parse (map (WorkerStdout p) chunks) s) ! p) = [] \<and>
         ws_open (wsocket (workers s ! p)) (run parse (map (WorkerStdout p) chunks) s) \<and>
         recognitionProcesses (run parse (map (WorkerStdout p) chunks) s) =
           recognitionProcesses s"
proof -
  have stream: "concat (map toString chunks) = concat (map (\<lambda>m. m @ [nl]) [l1, l2, l3]) @ []"
    using assms(14) by simp
  have "split (concat (map toString chunks)) = [l1, l2, l3] @ [[]]"
    unfolding stream by (rule split_lines) (use assms(5-7) in simp_all)
  then have segments: "split (concat (map toString chunks)) = [l1, l2, l3, []]"
    by simp
  have p: "p < length (workers s)"
    using assms(1) by (simp add: live_def)
  have run: "run parse (map (WorkerStdout p) chunks) s =
      (fold (stdout_line parse Recognition (wsocket (workers s ! p))) [l1, l2, l3] s)
      \<lparr>workers := (workers s)[p := (workers s ! p)\<lparr>buffer := []\<rparr>]\<rparr>"
    using stdout_run [OF assms(1), of parse chunks] assms(2,3) by (simp add: segments)
  show ?thesis
    using assms(4,8-13) p assms(1)
    by (simp add: run stdout_line_def recognition_line_def trim_empty send_if_open_def
        ws_open_def info_def live_def)
qed

theorem malformed_line_tolerance_witness:
  "live 0 recognition_session \<and>
   wkind (workers recognition_session ! 0) = Recognition \<and>
   ws_open (wsocket (workers recognition_session ! 0)) recognition_session \<and>
   sample_parse (str result_text) = Some result_json \<and>
   sample_parse (str ''not json'') = None \<and>
   concat (map toString
     [ascii result_text @ [10] @ ascii ''not js'', ascii ''on'' @ [10] @ ascii result_text @ [10]])
     = str result_text @ [nl] @ str ''not json'' @ [nl] @ str result_text @ [nl] \<and>
   sent (sockets (run sample_parse (map (WorkerStdout 0)
     [ascii result_text @ [10] @ ascii ''not js'', ascii ''on'' @ [10] @ ascii result_text @ [10]])
     recognition_session) ! 0) = [result_json, result_json] \<and>
   logged (run sample_parse (map (WorkerStdout 0)
     [ascii result_text @ [10] @ ascii ''not js'', ascii ''on'' @ [10] @ ascii result_text @ [10]])
     recognition_session) = logged recognition_session @ [InvalidJson Recognition (str ''not json'')]"
proof -
  have a: "live 0 recognition_session"
    and b: "wkind (workers recognition_session ! 0) = Recognition"
    and c: "buffer (workers recognition_session ! 0) = []"
    and d: "ws_open (wsocket (workers recognition_session ! 0)) recognition_session"
    and e: "sent (sockets recognition_session ! 0) = []"
    and w: "wsocket (workers recognition_session ! 0) = 0"
    by (simp_all add: sample_defs handler_defs Let_def)
  have f: "nl \<notin> set (str result_text)" and g: "nl \<notin> set (str ''not json'')"
    by (simp_all add: sample_defs str_def)
  have h: "sample_parse (str result_text) = Some result_json"
    and i: "sample_parse (str ''not json'') = None"
    by (simp_all add: sample_defs str_def)
  have j: "\<not> list_all whitespace (str result_text)"
    and k: "\<not> list_all whitespace (str ''not json'')"
    by (simp_all add: sample_defs str_def whitespace_def)
  have l: "concat (map toString
     [ascii result_text @ [10] @ ascii ''not js'', ascii ''on'' @ [10] @ ascii result_text @ [10]])
     = str result_text @ [nl] @ str ''not json'' @ [nl] @ str result_text @ [nl]"
    by (simp add: sample_defs toString_def lead_def utf16_def str_def)
  show ?thesis
    using malformed_line_tolerance [OF a b c d f g f h i h j k j l] a b d h i l
    by (simp add: e w)
qed

text \<open>
  As first stated the claim also covers a malformed line that is blank. Such a line is
  skipped before it is parsed: the client receives the two results, but no error is
  logged.
\<close>

theorem malformed_line_tolerance_counterexample:
  "sample_parse (str ''   '') = None \<and>
   sent (sockets (step sample_parse
     (WorkerStdout 0 (ascii result_text @ [10] @ ascii ''   '' @ [10] @ ascii result_text @ [10]))
     recognition_session) ! 0) = [result_json, result_json] \<and>
   logged (step sample_parse
     (WorkerStdout 0 (ascii result_text @ [10] @ ascii ''   '' @ [10] @ ascii result_text @ [10]))
     recognition_session) = logged recognition_session"
  by (simp add: sample_defs handler_defs eval_defs)

subsection \<open>Chunk boundaries inside a character\<close>

text \<open>
  Claim C2. The stream is one message, the JSON string whose only character is the
  letter U+00E9, written as the bytes 22 C3 A9 22 0A. Delivered in one chunk the framer emits the
  message; delivered in two chunks that part between C3 and A9 it emits a different
  line, with two replacement characters U+FFFD, because each chunk is decoded by
  itself.
\<close>

theorem chunk_invariance_fails:
  "framer_run [] [[0x22, 0xC3, 0xA9, 0x22, 0x0A]] = ([[0x22, 0xE9, 0x22]], []) \<and>
   framer_run [] [[0x22, 0xC3], [0xA9, 0x22, 0x0A]] = ([[0x22, 0xFFFD, 0xFFFD, 0x22]], [])"
  by (simp add: framer_def toString_def lead_def utf16_def nl_def)

subsection \<open>A disconnect during the backoff\<close>

text \<open>
  Claim C1. After the run \<open>restart_leak\<close> the only connection is closed, yet
  \<open>chatProcesses\<close> still maps its client id to the worker the timer spawned, and that
  worker has not exited and was never sent \<open>kill()\<close>.
\<close>

theorem no_leak_on_disconnect_fails:
  "map isOpen (sockets (run sample_parse restart_leak initial)) = [False] \<and>
   chatProcesses (run sample_parse restart_leak initial) 0 = Some 1 \<and>
   map closed (workers (run sample_parse restart_leak initial)) = [True, False] \<and>
   map killed (workers (run sample_parse restart_leak initial)) = [False, False]"
  by (simp add: sample_defs handler_defs Let_def)

subsection \<open>Two connections in one millisecond\<close>

text \<open>
  Claim C8. Two connections accepted at the same reading of the clock get the same
  client id; the second \<open>set\<close> replaces the first connection's registry entry, so when
  both have disconnected the first worker has never been sent \<open>kill()\<close>.
\<close>

theorem session_id_collision:
  "map clientId (sockets (run sample_parse (take 2 same_millisecond) initial)) = [0, 0] \<and>
   map process (sockets (run sample_parse (take 2 same_millisecond) initial)) = [Some 0, Some 1] \<and>
   chatProcesses (run sample_parse (take 2 same_millisecond) initial) 0 = Some 1 \<and>
   map isOpen (sockets (run sample_parse same_millisecond initial)) = [False, False] \<and>
   map killed (workers (run sample_parse same_millisecond initial)) = [False, True]"
  by (simp add: sample_defs handler_defs Let_def)

subsection \<open>Messages from the client\<close>

lemma ws_open_send_if_open [simp]: "ws_open w (send_if_open w' v s) = ws_open w s"
  by (auto simp: ws_open_def send_if_open_def nth_list_update)

lemma ws_open_stdin_write [simp]: "ws_open w (stdin_write p v s) = ws_open w s"
  by (simp add: ws_open_def stdin_write_def)









subsection \<open>A chat worker that exits\<close>

text \<open>
  Claim C3, amended. When the \<open>close\<close> event of a chat worker is delivered while its
  client is connected, the client is sent the restart notice, the registry entry of
  the client id is removed, no process is spawned yet, and a timer is set for 1000 ms
  after the notice, carrying the same client id and connection. While that timer
  heads the queue and the clock is before its due time, firing does nothing; once due,
  it spawns a chat worker bound to the same client id and connection and sets the
  registry entry of that id to the new worker.
\<close>

theorem chat_restart_cadence:
  assumes "live p s" and "wkind (workers s ! p) = Chat"
    and "ws_open (wsocket (workers s ! p)) s"
  shows
    "sent (sockets (step parse (WorkerExit p code) s) ! wsocket (workers s ! p)) =
       sent (sockets s ! wsocket (workers s ! p)) @
       [system_message ''Chat process terminated, restarting...''] \<and>
     chatProcesses (step parse (WorkerExit p code) s) (wclient (workers s ! p)) = None \<and>
     timers (step parse (WorkerExit p code) s) =
       timers s @ [(clock s + 1000, wclient (workers s ! p), wsocket (workers s ! p))] \<and>
     workers (step parse (WorkerExit p code) s) =
       (workers s)[p := (workers s ! p)\<lparr>closed := True\<rparr>] \<and>
     (timers t = (clock s + 1000, wclient (workers s ! p), wsocket (workers s ! p)) # rest \<and>
      clock t < clock s + 1000 \<longrightarrow>
        step parse (TimerFire fail) t = t) \<and>
     (timers t = (clock s + 1000, wclient (workers s ! p), wsocket (workers s ! p)) # rest \<and>
      clock s + 1000 \<le> clock t \<longrightarrow>
        workers (step parse (TimerFire None) t) =
          workers t @ [\<lparr>wkind = Chat, wclient = wclient (workers s ! p),
            wsocket = wsocket (workers s ! p), stdin = [], buffer = [], killed = False,
            closed = False\<rparr>] \<and>
        chatProcesses (step parse (TimerFire None) t) =
          (chatProcesses t)(wclient (workers s ! p) \<mapsto> length (workers t)) \<and>
        sockets (step parse (TimerFire None) t) = sockets t \<and>
        timers (step parse (TimerFire None) t) = rest)"
proof -
  have exit: "step parse (WorkerExit p code) s =
      chat_close p code (s\<lparr>workers := (workers s)[p := (workers s ! p)\<lparr>closed := True\<rparr>]\<rparr>)"
    using assms(1,2) by (simp add: process_close_def Let_def)
  have p: "p < length (workers s)"
    using assms(1) by (simp add: live_def)
  have w: "wsocket (workers s ! p) < length (sockets s)"
    and wopen: "isOpen (sockets s ! wsocket (workers s ! p))"
    using assms(3) by (simp_all add: ws_open_def)
  have notice: "sent (sockets (step parse (WorkerExit p code) s) ! wsocket (workers s ! p)) =
       sent (sockets s ! wsocket (workers s ! p)) @
       [system_message ''Chat process terminated, restarting...'']"
    unfolding exit using p w wopen
    by (simp add: chat_close_def Let_def ws_open_def send_if_open_def info_def)
  have entry: "chatProcesses (step parse (WorkerExit p code) s) (wclient (workers s ! p)) = None"
    unfolding exit using p w wopen
    by (simp add: chat_close_def Let_def ws_open_def send_if_open_def info_def)
  have timer: "timers (step parse (WorkerExit p code) s) =
       timers s @ [(clock s + 1000, wclient (workers s ! p), wsocket (workers s ! p))]"
    unfolding exit using p w wopen
    by (simp add: chat_close_def Let_def ws_open_def send_if_open_def info_def)
  have nospawn: "workers (step parse (WorkerExit p code) s) =
       (workers s)[p := (workers s ! p)\<lparr>closed := True\<rparr>]"
    unfolding exit using p w wopen
    by (simp add: chat_close_def Let_def ws_open_def send_if_open_def info_def)
  have early: "step parse (TimerFire fail) t = t"
    if "timers t = (clock s + 1000, wclient (workers s ! p), wsocket (workers s ! p)) # rest"
      "clock t < clock s + 1000"
    using that by simp
  have due: "workers (step parse (TimerFire None) t) =
          workers t @ [\<lparr>wkind = Chat, wclient = wclient (workers s ! p),
            wsocket = wsocket (workers s ! p), stdin = [], buffer = [], killed = False,
            closed = False\<rparr>] \<and>
        chatProcesses (step parse (TimerFire None) t) =
          (chatProcesses t)(wclient (workers s ! p) \<mapsto> length (workers t)) \<and>
        sockets (step parse (TimerFire None) t) = sockets t \<and>
        timers (step parse (TimerFire None) t) = rest"
    if "timers t = (clock s + 1000, wclient (workers s ! p), wsocket (workers s ! p)) # rest"
      "clock s + 1000 \<le> clock t"
    using that by (simp add: startChatProcess_def spawn_def info_def Let_def)
  show ?thesis
    using notice entry timer nospawn early due by blast
qed

theorem chat_restart_cadence_witness:
  "live 0 chat_session \<and> wkind (workers chat_session ! 0) = Chat \<and>
   ws_open (wsocket (workers chat_session ! 0)) chat_session \<and>
   sent (sockets (step sample_parse (WorkerExit 0 (Some 1)) chat_session) ! 0) =
     [system_message ''Chat process terminated, restarting...''] \<and>
   timers (step sample_parse (WorkerExit 0 (Some 1)) chat_session) = [(1000, 0, 0)] \<and>
   length (workers (step sample_parse (WorkerExit 0 (Some 1)) chat_session)) = 1 \<and>
   step sample_parse (TimerFire None)
     (run sample_parse [WorkerExit 0 (Some 1), Advance 999] chat_session) =
     run sample_parse [WorkerExit 0 (Some 1), Advance 999] chat_session \<and>
   map wclient (workers (run sample_parse [WorkerExit 0 (Some 1), Advance 1000, TimerFire None]
     chat_session)) = [0, 0] \<and>
   chatProcesses (run sample_parse [WorkerExit 0 (Some 1), Advance 1000, TimerFire None]
     chat_session) 0 = Some 1"
proof -
  have a: "live 0 chat_session" and b: "wkind (workers chat_session ! 0) = Chat"
    and c: "ws_open (wsocket (workers chat_session ! 0)) chat_session"
    by (simp_all add: sample_defs handler_defs Let_def)
  have early: "timers (run sample_parse [WorkerExit 0 (Some 1), Advance 999] chat_session) =
      (clock chat_session + 1000, wclient (workers chat_session ! 0),
       wsocket (workers chat_session ! 0)) # [] \<and>
     clock (run sample_parse [WorkerExit 0 (Some 1), Advance 999] chat_session)
       < clock chat_session + 1000"
    by (simp add: sample_defs handler_defs Let_def)
  have due: "timers (run sample_parse [WorkerExit 0 (Some 1), Advance 1000] chat_session) =
      (clock chat_session + 1000, wclient (workers chat_session ! 0),
       wsocket (workers chat_session ! 0)) # [] \<and>
     clock chat_session + 1000
       \<le> clock (run sample_parse [WorkerExit 0 (Some 1), Advance 1000] chat_session)"
    by (simp add: sample_defs handler_defs Let_def)
  show ?thesis
    using chat_restart_cadence [OF a b c, of sample_parse "Some 1"
        "run sample_parse [WorkerExit 0 (Some 1), Advance 999] chat_session" "[]" None]
      chat_restart_cadence [OF a b c, of sample_parse "Some 1"
        "run sample_parse [WorkerExit 0 (Some 1), Advance 1000] chat_session" "[]" None]
      early due a b c
    by (simp add: sample_defs handler_defs Let_def)
qed

text \<open>
  As first stated the claim has the registry entry unchanged across the restart. It
  is removed when the worker exits, is absent during the backoff, and afterwards names
  the replacement.
\<close>

theorem chat_restart_cadence_counterexample:
  "chatProcesses chat_session 0 = Some 0 \<and>
   ws_open 0 chat_session \<and>
   chatProcesses (step sample_parse (WorkerExit 0 (Some 1)) chat_session) 0 = None \<and>
   chatProcesses (run sample_parse [WorkerExit 0 (Some 1), Advance 1000, TimerFire None]
     chat_session) 0 = Some 1"
  by (simp add: sample_defs handler_defs Let_def)

end
